theory Spec2Isabelle
  imports Main "HOL-Library.Word" "HOL-Library.Signed_Division" "HOL-Library.Sublist"
begin

unbundle bit_operations_syntax

section \<open>xbutil: the \<open>xcldev::device\<close> class of xbutil.h\<close>

text \<open>
  The development embeds the member functions of \<open>class device\<close> (xbutil.h) that load a
  bitstream, reboot the card, run the DMA test, read and write device memory, copy blocks
  and compute the pending bytes of a stream queue. Calls into the HAL driver and into the
  helper classes of \<open>user_common\<close> are calls to an environment that answers with an
  integer; every such call is logged with its answer.
\<close>

subsection \<open>Abnormal ends\<close>

text \<open>
  A C++ exception leaving the function or a trap of the processor. \<open>Bad_alloc\<close> stands for
  \<open>std::bad_alloc\<close> and its subclass \<open>std::bad_array_new_length\<close>. \<open>Division_trap\<close> is
  the trap of an integer division: by zero, or of the least \<open>int\<close> by -1.
\<close>

datatype abnormal = Invalid_argument | Out_of_range | Bad_alloc | Division_trap

subsection \<open>Pending bytes of a stream queue (\<open>m_stream_usage_stringize_dynamics\<close>)\<close>

text \<open>
  \<open>stat_map\<close> is a \<open>std::map<std::string, std::string>\<close>. Every value stored in it is
  \<open>std::to_string(value)\<close> of an \<open>int64_t\<close>, so the map is kept here as the number each
  string prints. Reading a key that was never stored gives the empty string, on which
  \<open>std::stoi\<close> throws \<open>std::invalid_argument\<close>; a number outside the range of \<open>int\<close>
  makes it throw \<open>std::out_of_range\<close>.
\<close>

type_synonym stat_map = "string \<rightharpoonup> int"

text \<open>A C++ \<open>int\<close>: 32 bits, read as two's complement by \<open>sint\<close>.\<close>

type_synonym c_int = "32 word"

definition stoi :: "int option \<Rightarrow> abnormal + c_int" where
  "stoi v =
     (case v of
        None \<Rightarrow> Inl Invalid_argument
      | Some k \<Rightarrow>
          if - (2 ^ 31) \<le> k \<and> k < 2 ^ 31 then Inr (word_of_int k) else Inl Out_of_range)"

text \<open>
  Lines 802-803. The arithmetic is that of \<open>int\<close>, 32 bits wide, with wrap-around. The
  three conversions are taken from left to right (C++ leaves their order open, which only
  decides which exception is seen when more than one conversion fails).
\<close>

definition write_pending :: "stat_map \<Rightarrow> abnormal + c_int" where
  "write_pending stat_map =
     (case stoi (stat_map ''descq_pidx'') of
        Inl e \<Rightarrow> Inl e
      | Inr pidx \<Rightarrow>
     (case stoi (stat_map ''descq_cidx'') of
        Inl e \<Rightarrow> Inl e
      | Inr cidx \<Rightarrow>
     (case stoi (stat_map ''descq_rngsz'') of
        Inl e \<Rightarrow> Inl e
      | Inr rngsz \<Rightarrow> Inr (((pidx - cidx) AND (rngsz - 1)) * 4096))))"

text \<open>Lines 812-813.\<close>

definition read_pending :: "stat_map \<Rightarrow> abnormal + c_int" where
  "read_pending stat_map =
     (case stoi (stat_map ''c2h_wrb_pidx'') of
        Inl e \<Rightarrow> Inl e
      | Inr pidx \<Rightarrow>
     (case stoi (stat_map ''descq_cidx_wrb_pend'') of
        Inl e \<Rightarrow> Inl e
      | Inr cidx \<Rightarrow>
     (case stoi (stat_map ''descq_rngsz'') of
        Inl e \<Rightarrow> Inl e
      | Inr rngsz \<Rightarrow> Inr (((pidx - cidx) AND (rngsz - 1)) * 4096))))"

text \<open>
  Lines 800-816: a queue whose tag ends in \<open>w\<close> (\<open>flag\<close>) shows the write side, any other
  queue the read side.
\<close>

definition stream_pending :: "bool \<Rightarrow> stat_map \<Rightarrow> abnormal + c_int" where
  "stream_pending flag stat_map = (if flag then write_pending stat_map else read_pending stat_map)"

text \<open>
  The formula of the specification, with the unit size as a fourth argument:
  \<open>((producer - consumer) & (ring_size - 1)) * descriptor_unit_bytes\<close>.
\<close>

definition spec_pending :: "c_int \<Rightarrow> c_int \<Rightarrow> c_int \<Rightarrow> c_int \<Rightarrow> c_int" where
  "spec_pending producer consumer ring_size unit_bytes =
     ((producer - consumer) AND (ring_size - 1)) * unit_bytes"

definition in_int_range :: "int \<Rightarrow> bool" where
  "in_int_range k = (- (2 ^ 31) \<le> k \<and> k < 2 ^ 31)"

subsection \<open>The device object and the environment\<close>

text \<open>
  A device handle is a pointer; it is kept as its address, \<open>nullptr\<close> being 0. The record
  holds the members of \<open>class device\<close> the embedded functions read: the index, the handle,
  and of \<open>m_devinfo\<close> the name, the DDR size and the data alignment, together with the
  sysfs name that \<open>pcidev::get_dev(m_idx)\<close> gives for the user function.
\<close>

type_synonym xclDeviceHandle = int

record device =
  m_idx :: nat
  m_handle :: xclDeviceHandle
  mName :: string
  mDDRSize :: "64 word"
  mDataAlignment :: "64 word"
  sysfs_name :: string

text \<open>The temporary \<open>memaccess(m_handle, mDDRSize, mDataAlignment, sysfs_name)\<close>.\<close>

record memaccess =
  acc_handle :: xclDeviceHandle
  acc_ddr_size :: "64 word"
  acc_data_alignment :: "64 word"
  acc_sysfs_name :: string

definition memaccess_of :: "device \<Rightarrow> memaccess" where
  "memaccess_of d =
     \<lparr>acc_handle = m_handle d, acc_ddr_size = mDDRSize d,
      acc_data_alignment = mDataAlignment d, acc_sysfs_name = sysfs_name d\<rparr>"

text \<open>
  The calls that leave xbutil.h: the HAL entry points of xclhal2.h and the member
  functions of \<open>memaccess\<close> and \<open>DMARunner\<close>, none of which is among the sources. Each
  carries its arguments. \<open>XclOpen\<close> is always called with a null log file and \<open>XCL_QUIET\<close>.
\<close>

datatype hw_call =
    XclLockDevice xclDeviceHandle
  | XclUnlockDevice xclDeviceHandle
  | XclLoadXclBin xclDeviceHandle string
  | XclBootFPGA xclDeviceHandle
  | XclOpen nat
  | Memaccess_read memaccess string "64 word" "64 word"
  | Memaccess_write memaccess "64 word" "64 word" "32 word"
  | Memaccess_write_buf memaccess "64 word" "64 word" string
  | Memaccess_writeQuiet memaccess "64 word" "64 word" "32 word"
  | Memaccess_readCompare memaccess "64 word" "64 word" "32 word" bool
  | DMARunner_run xclDeviceHandle "64 word" int

text \<open>
  What is written to \<open>std::cout\<close>, one item for each \<open><<\<close>: a string, a number after
  \<open>std::dec\<close> or \<open>std::hex\<close>, a number in whatever base the stream is in, a value
  computed from clock readings, and \<open>std::endl\<close>.
\<close>

datatype cout_item = Str string | Dec "64 word" | Hex "64 word" | Num int | Measured | Endl

text \<open>
  The world outside the object: the state of the card and its driver (of a type that is
  left open), the log of the calls made with the answer to each, and the output.
\<close>

record 's world =
  dev_state :: 's
  hw_log :: "(hw_call \<times> int) list"
  cout :: "cout_item list"

type_synonym 's environment = "hw_call \<Rightarrow> 's \<Rightarrow> int \<times> 's"

definition hw :: "'s environment \<Rightarrow> hw_call \<Rightarrow> 's world \<Rightarrow> int \<times> 's world" where
  "hw env c w =
     (let (r, s') = env c (dev_state w)
      in (r, w\<lparr>dev_state := s', hw_log := hw_log w @ [(c, r)]\<rparr>))"

definition print :: "cout_item list \<Rightarrow> 's world \<Rightarrow> 's world" where
  "print items w = w\<lparr>cout := cout w @ items\<rparr>"

text \<open>The values of \<open>errno.h\<close> on Linux.\<close>

definition ENOENT :: int where "ENOENT = 2"
definition EACCES :: int where "EACCES = 13"
definition EINVAL :: int where "EINVAL = 22"

subsection \<open>\<open>program\<close>\<close>

text \<open>
  \<open>strncmp\<close> on char arrays. A list stands for the array followed by a terminating NUL,
  as a string literal is. The result is 0 when the first \<open>n\<close> characters agree up to and
  including the first NUL, and has the sign of the first difference (bytes compared as
  unsigned) otherwise.
\<close>

fun strncmp :: "string \<Rightarrow> string \<Rightarrow> nat \<Rightarrow> int" where
  "strncmp s1 s2 0 = 0"
| "strncmp [] [] (Suc n) = 0"
| "strncmp [] (b # s2) (Suc n) = (if b = CHR 0x00 then 0 else - 1)"
| "strncmp (a # s1) [] (Suc n) = (if a = CHR 0x00 then 0 else 1)"
| "strncmp (a # s1) (b # s2) (Suc n) =
     (if a \<noteq> b then (if (of_char a :: nat) < of_char b then - 1 else 1)
      else if a = CHR 0x00 then 0
      else strncmp s1 s2 n)"

text \<open>
  \<open>stream.read(temp, 8)\<close> into the uninitialised \<open>char temp[8]\<close>: the bytes the file has,
  up to 8, are stored; the rest of the array keeps what the stack held (\<open>temp0\<close>, 8 bytes).
\<close>

definition read_temp :: "string \<Rightarrow> string \<Rightarrow> string" where
  "read_temp temp0 bytes = take 8 bytes @ drop (length (take 8 bytes)) (take 8 temp0)"

text \<open>
  \<open>stream.seekg(0, stream.end); int length = stream.tellg();\<close>
  A file shorter than 8 bytes has set \<open>failbit\<close> in the read before, so the seek does
  nothing and \<open>tellg\<close> returns -1. Otherwise the size of the file is narrowed to \<open>int\<close>.
\<close>

definition tellg_length :: "string \<Rightarrow> int" where
  "tellg_length bytes =
     (if length bytes < 8 then - 1 else sint (word_of_nat (length bytes) :: c_int))"

text \<open>
  \<open>int program(const std::string& xclbin, unsigned region)\<close>.
  \<open>file\<close> is the content of the file named \<open>xclbin\<close>, or \<open>None\<close> when it cannot be
  opened. The result is the returned \<open>int\<close>, or the exception of \<open>new char[length]\<close> at a
  negative length.
\<close>

definition program ::
  "'s environment \<Rightarrow> device \<Rightarrow> string \<Rightarrow> string option \<Rightarrow> string \<Rightarrow> 32 word \<Rightarrow> 's world
     \<Rightarrow> (abnormal + int) \<times> 's world" where
  "program env d xclbin file temp0 region w =
     (case file of
        None \<Rightarrow>
          (Inr (- ENOENT),
           print [Str ''ERROR: Cannot open '', Str xclbin,
                  Str ''. Check that it exists and is readable.'', Endl] w)
      | Some bytes \<Rightarrow>
          if region \<noteq> 0 then
            (Inr (- EINVAL), print [Str ''ERROR: Not support other than -r 0 '', Endl] w)
          else
            let temp = read_temp temp0 bytes in
            if strncmp temp ''xclbin0'' 8 \<noteq> 0 \<and> strncmp temp ''xclbin2'' 8 \<noteq> 0 then
              (Inr (- EINVAL), w)
            else
              let len = tellg_length bytes in
              if len < 0 then (Inl Bad_alloc, w)
              else
                let buffer = take (nat len) bytes;
                    (result, w1) = hw env (XclLockDevice (m_handle d)) w
                in if result \<noteq> 0 then (Inr result, w1)
                   else
                     let (result, w2) = hw env (XclLoadXclBin (m_handle d) buffer) w1;
                         (unlocked, w3) = hw env (XclUnlockDevice (m_handle d)) w2
                     in (Inr result, w3))"

subsection \<open>\<open>boot\<close>\<close>

text \<open>
  \<open>int boot()\<close>. \<open>uid\<close> and \<open>euid\<close> are what \<open>getuid()\<close> and \<open>geteuid()\<close> return. The
  function assigns \<open>m_handle\<close>, so the device object is returned with the result.
\<close>

definition boot ::
  "'s environment \<Rightarrow> nat \<Rightarrow> nat \<Rightarrow> device \<Rightarrow> 's world \<Rightarrow> int \<times> device \<times> 's world" where
  "boot env uid euid d w =
     (if uid \<noteq> 0 \<and> euid \<noteq> 0 then
        (- EACCES, d, print [Str ''ERROR: boot operation requires root privileges'', Endl] w)
      else
        let (retVal, w1) = hw env (XclBootFPGA (m_handle d)) w
        in if retVal = 0 then
             let (h, w2) = hw env (XclOpen (m_idx d)) w1
             in (if h \<noteq> 0 then 0 else - 1, d\<lparr>m_handle := h\<rparr>, w2)
           else (retVal, d, w1))"

text \<open>The header test of \<open>program\<close> passes: one of the two comparisons gives 0.\<close>

definition magic_ok :: "string \<Rightarrow> bool" where
  "magic_ok temp = (strncmp temp ''xclbin0'' 8 = 0 \<or> strncmp temp ''xclbin2'' 8 = 0)"

subsection \<open>Memory access\<close>

text \<open>
  \<open>strstr(haystack, needle)\<close> as the test it is used for: whether the needle occurs.
\<close>

fun strstr :: "string \<Rightarrow> string \<Rightarrow> bool" where
  "strstr [] needle = (needle = [])"
| "strstr (c # cs) needle = (prefix needle (c # cs) \<or> strstr cs needle)"

definition memwriteQuiet ::
  "'s environment \<Rightarrow> device \<Rightarrow> 64 word \<Rightarrow> 64 word \<Rightarrow> 32 word \<Rightarrow> 's world \<Rightarrow> int \<times> 's world" where
  "memwriteQuiet env d aStartAddr aSize aPattern w =
     hw env (Memaccess_writeQuiet (memaccess_of d) aStartAddr aSize aPattern) w"

definition memreadCompare ::
  "'s environment \<Rightarrow> device \<Rightarrow> 64 word \<Rightarrow> 64 word \<Rightarrow> 32 word \<Rightarrow> bool \<Rightarrow> 's world
     \<Rightarrow> int \<times> 's world" where
  "memreadCompare env d aStartAddr aSize aPattern checks w =
     hw env (Memaccess_readCompare (memaccess_of d) aStartAddr aSize aPattern checks) w"

text \<open>
  \<open>memread\<close>, \<open>memwrite\<close> with a pattern and \<open>memwrite\<close> with a source buffer. On an ARE
  device (the name contains \<open>-xare\<close>) two tests against the DDR size print a line each;
  \<open>aStartAddr + aSize\<close> is a sum of \<open>unsigned long long\<close> and wraps at 64 bits.
\<close>

definition memread ::
  "'s environment \<Rightarrow> device \<Rightarrow> string \<Rightarrow> 64 word \<Rightarrow> 64 word \<Rightarrow> 's world \<Rightarrow> int \<times> 's world" where
  "memread env d aFilename aStartAddr aSize w =
     (let w2 =
        (if strstr (mName d) ''-xare'' then
           let w1 = (if aStartAddr > mDDRSize d
                     then print [Str ''Start address '', Hex aStartAddr, Str '' is over ARE'', Endl] w
                     else w)
           in if aSize > mDDRSize d \<or> aStartAddr + aSize > mDDRSize d
              then print [Str ''Read size '', Dec aSize, Str '' from address 0x'', Hex aStartAddr,
                          Str '' is over ARE'', Endl] w1
              else w1
         else w)
      in hw env (Memaccess_read (memaccess_of d) aFilename aStartAddr aSize) w2)"

definition memwrite ::
  "'s environment \<Rightarrow> device \<Rightarrow> 64 word \<Rightarrow> 64 word \<Rightarrow> 32 word \<Rightarrow> 's world \<Rightarrow> int \<times> 's world" where
  "memwrite env d aStartAddr aSize aPattern w =
     (let w2 =
        (if strstr (mName d) ''-xare'' then
           let w1 = (if aStartAddr > mDDRSize d
                     then print [Str ''Start address '', Hex aStartAddr, Str '' is over ARE'', Endl] w
                     else w)
           in if aSize > mDDRSize d \<or> aStartAddr + aSize > mDDRSize d
              then print [Str ''Write size '', Dec aSize, Str '' from address 0x'', Hex aStartAddr,
                          Str '' is over ARE'', Endl] w1
              else w1
         else w)
      in hw env (Memaccess_write (memaccess_of d) aStartAddr aSize aPattern) w2)"

definition memwrite_buf ::
  "'s environment \<Rightarrow> device \<Rightarrow> 64 word \<Rightarrow> 64 word \<Rightarrow> string \<Rightarrow> 's world \<Rightarrow> int \<times> 's world" where
  "memwrite_buf env d aStartAddr aSize srcBuf w =
     (let w2 =
        (if strstr (mName d) ''-xare'' then
           let w1 = (if aStartAddr > mDDRSize d
                     then print [Str ''Start address '', Hex aStartAddr, Str '' is over ARE'', Endl] w
                     else w)
           in if aSize > mDDRSize d \<or> aStartAddr + aSize > mDDRSize d
              then print [Str ''Write size '', Dec aSize, Str '' from address 0x'', Hex aStartAddr,
                          Str '' is over ARE'', Endl] w1
              else w1
         else w)
      in hw env (Memaccess_write_buf (memaccess_of d) aStartAddr aSize srcBuf) w2)"

text \<open>
  The part of a request that lies inside a device memory of \<open>ddr\<close> bytes, as the
  specification speaks of it: it starts at the requested address and ends where the
  request or the memory ends, whichever is first.
\<close>

definition spec_in_range_portion :: "64 word \<Rightarrow> 64 word \<Rightarrow> 64 word \<Rightarrow> 64 word \<times> 64 word" where
  "spec_in_range_portion ddr aStartAddr aSize =
     (aStartAddr, if ddr \<le> aStartAddr then 0 else min aSize (ddr - aStartAddr))"

subsection \<open>\<open>dmatest\<close>\<close>

text \<open>
  Modelled from the spec: \<open>mem_topology\<close>, \<open>mem_data\<close> and the enumeration of memory
  types are declared in xclbin.h, which is not among the sources. Of the types only the
  streaming pseudo-bank is told apart; of a bank the type, the used mark (a byte), the
  base address and the tag are kept. A topology is the list of its \<open>m_count\<close> banks.
\<close>

datatype mem_type = MEM_STREAMING | MEM_OTHER nat

record mem_data =
  m_type :: mem_type
  m_used :: "8 word"
  m_base_address :: "64 word"
  m_tag :: string

text \<open>
  The loop \<open>for (unsigned sz = 1; sz <= 256; sz *= 2)\<close> of lines 1234-1241, from a given
  \<open>sz\<close> on. \<open>Inl r\<close> is the \<open>return result\<close> inside the loop, which leaves \<open>dmatest\<close>;
  \<open>Inr r\<close> is the end of the loop with \<open>result = r\<close>. The loop starts at 1, so \<open>sz\<close> is
  never 0 and never wraps; the test \<open>0 < sz\<close> only makes the recursion total.
\<close>

function sweep ::
  "'s environment \<Rightarrow> device \<Rightarrow> 64 word \<Rightarrow> 32 word \<Rightarrow> nat \<Rightarrow> int \<Rightarrow> 's world
     \<Rightarrow> (int + int) \<times> 's world" where
  "sweep env d addr pattern sz result w =
     (if 0 < sz \<and> sz \<le> 256 then
        let (result1, w1) = memwriteQuiet env d addr (of_nat sz) pattern w
        in if result1 < 0 then (Inl result1, w1)
           else
             let (result2, w2) = memreadCompare env d addr (of_nat sz) pattern False w1
             in if result2 < 0 then (Inl result2, w2)
                else sweep env d addr pattern (sz * 2) result2 w2
      else (Inr result, w))"
  by pat_completeness auto
termination
  by (relation "measure (\<lambda>(env, d, addr, pattern, sz, result, w). 257 - sz)") auto

declare sweep.simps [simp del]

text \<open>
  The loop over the banks, lines 1223-1245, with \<open>i\<close> the index of the first bank of the
  list. \<open>DMARunner runner(m_handle, blockSize, i); result = runner.run();\<close> is one call.
\<close>

fun dmatest_banks ::
  "'s environment \<Rightarrow> device \<Rightarrow> 64 word \<Rightarrow> 32 word \<Rightarrow> bool \<Rightarrow> mem_data list \<Rightarrow> int \<Rightarrow> int
     \<Rightarrow> 's world \<Rightarrow> (int + int) \<times> 's world" where
  "dmatest_banks env d blockSize pattern verbose [] i result w = (Inr result, w)"
| "dmatest_banks env d blockSize pattern verbose (m # ms) i result w =
     (if m_type m = MEM_STREAMING then
        dmatest_banks env d blockSize pattern verbose ms (i + 1) result w
      else if m_used m \<noteq> 0 then
        let w0 = (if verbose
                  then print [Str ''Data Validity & DMA Test on '', Str (m_tag m), Str ''\<newline>''] w
                  else w)
        in case sweep env d (m_base_address m) pattern 1 result w0 of
             (Inl r, w1) \<Rightarrow> (Inl r, w1)
           | (Inr r, w1) \<Rightarrow>
               let (result', w2) = hw env (DMARunner_run (m_handle d) blockSize i) w1
               in dmatest_banks env d blockSize pattern verbose ms (i + 1) result' w2
      else dmatest_banks env d blockSize pattern verbose ms (i + 1) result w)"

text \<open>The two timing loops of the ARE part: \<open>n\<close> writes whose results are dropped.\<close>

fun repeat_memwriteQuiet ::
  "nat \<Rightarrow> 's environment \<Rightarrow> device \<Rightarrow> 64 word \<Rightarrow> 64 word \<Rightarrow> 32 word \<Rightarrow> 's world \<Rightarrow> 's world" where
  "repeat_memwriteQuiet 0 env d addr sz pattern w = w"
| "repeat_memwriteQuiet (Suc n) env d addr sz pattern w =
     repeat_memwriteQuiet n env d addr sz pattern (snd (memwriteQuiet env d addr sz pattern w))"

text \<open>
  Lines 1247-1280. \<open>numHops = addr / mDDRSize\<close> traps when the DDR size is 0, before any
  write; the division by \<open>numIteration * numHops\<close> traps after the writes when the DDR
  size is above 16 GB. The times are clock readings.
\<close>

definition are_latency ::
  "'s environment \<Rightarrow> device \<Rightarrow> 32 word \<Rightarrow> 's world \<Rightarrow> abnormal option \<times> 's world" where
  "are_latency env d pattern w =
     (if mDDRSize d = 0 then (Some Division_trap, w)
      else
        let numHops = uint ((0x400000000 :: 64 word) div mDDRSize d);
            w1 = repeat_memwriteQuiet 10000 env d 0x400000000 0x20000 pattern w;
            w2 = repeat_memwriteQuiet 10000 env d 0 1 pattern w1
        in if 10000 * numHops = 0 then (Some Division_trap, w2)
           else
             (None,
              print [Str ''Averaging ARE hardware latency over '', Num (10000 * numHops),
                     Str '' hops\<newline>'',
                     Str ''Latency per ARE hop for 128KB: '', Measured, Str '' ns\<newline>'',
                     Str ''Total latency over ARE: '', Measured, Str '' ns\<newline>''] w2))"

text \<open>
  \<open>int dmatest(size_t blockSize, bool verbose)\<close>. \<open>errmsg\<close> and \<open>topology\<close> are what
  \<open>sysfs_get("", "mem_topology", errmsg, buf)\<close> hands back; an empty buffer and a count
  of 0 are both the empty list. The pattern is \<open>'J'\<close>, 74.
\<close>

definition dmatest ::
  "'s environment \<Rightarrow> device \<Rightarrow> string \<Rightarrow> mem_data list \<Rightarrow> 64 word \<Rightarrow> bool \<Rightarrow> 's world
     \<Rightarrow> (abnormal + int) \<times> 's world" where
  "dmatest env d errmsg topology blockSize0 verbose w =
     (let blockSize = (if blockSize0 = 0 then 256 * 1024 * 1024 else blockSize0);
          w1 = (if verbose
                then print [Str ''Total DDR size: '', Num (uint (mDDRSize d div (1024 * 1024))),
                            Str '' MB\<newline>''] w
                else w);
          isAREDevice = strstr (mName d) ''-xare''
      in if errmsg \<noteq> [] then (Inr (- EINVAL), print [Str errmsg, Endl] w1)
         else if topology = [] then
           (Inr (- EINVAL),
            print [Str ''WARNING: 'mem_topology' invalid, '',
                   Str ''unable to perform DMA Test. Has the bitstream been loaded? '',
                   Str ''See 'xbutil program'.'', Endl] w1)
         else
           let w2 = (if verbose then print [Str ''Reporting from mem_topology:'', Endl] w1 else w1)
           in case dmatest_banks env d blockSize 74 verbose topology 0 0 w2 of
                (Inl r, w3) \<Rightarrow> (Inr r, w3)
              | (Inr result, w3) \<Rightarrow>
                  if isAREDevice then
                    (case are_latency env d 74 w3 of
                       (Some trap, w4) \<Rightarrow> (Inl trap, w4)
                     | (None, w4) \<Rightarrow> (Inr result, w4))
                  else (Inr result, w3))"

text \<open>
  A call of the correctness sweep, and a log in which every such call was answered with a
  result that is not negative.
\<close>

fun is_sweep_call :: "hw_call \<Rightarrow> bool" where
  "is_sweep_call (Memaccess_writeQuiet acc addr sz pattern) = True"
| "is_sweep_call (Memaccess_readCompare acc addr sz pattern checks) = True"
| "is_sweep_call c = False"

definition no_sweep_failure :: "(hw_call \<times> int) list \<Rightarrow> bool" where
  "no_sweep_failure tr = list_all (\<lambda>(c, r). is_sweep_call c \<longrightarrow> 0 \<le> r) tr"

subsection \<open>The default block count of \<open>do_dd\<close>\<close>

text \<open>
  Lines 1403-1408 of \<open>do_dd\<close>, in the file-to-device direction once the input file is
  open: \<open>if (args.count <= 0) { ...; int length = iStream.tellg();
  args.count = length / args.blockSize + 1; // round up ... }\<close>.
  The function returns the count the copy loop starts with. \<open>count\<close>, \<open>blockSize\<close> and
  \<open>length\<close> are \<open>int\<close>s: the file size is narrowed to 32 bits, the division truncates
  towards zero and traps at a block size of 0 and at the least \<open>int\<close> divided by -1, and
  the sum wraps.
\<close>

definition do_dd_count :: "int \<Rightarrow> nat \<Rightarrow> int \<Rightarrow> abnormal + int" where
  "do_dd_count count file_size blockSize =
     (if count \<le> 0 then
        let len = signed_take_bit 31 (int file_size)
        in if blockSize = 0 \<or> (len = - (2 ^ 31) \<and> blockSize = - 1) then Inl Division_trap
           else Inr (signed_take_bit 31 (len sdiv blockSize + 1))
      else Inr count)"

text \<open>
  The copy loop of lines 1421-1432, \<open>while (args.count-- > 0)\<close>, over the bytes of the
  input file that are still unread. A block of up to \<open>blockSize\<close> bytes is read; a short
  read sets the count to 0; the bytes read are written at \<open>addr\<close>, which then moves on.
\<close>

function dd_write_loop ::
  "'s environment \<Rightarrow> device \<Rightarrow> string \<Rightarrow> int \<Rightarrow> int \<Rightarrow> 64 word \<Rightarrow> 's world \<Rightarrow> 's world" where
  "dd_write_loop env d unread blockSize count addr w =
     (if count > 0 then
        let buf = take (nat blockSize) unread;
            inSize = length buf;
            count' = (if int inSize = blockSize then count - 1 else 0);
            (r, w1) = memwrite_buf env d addr (of_nat inSize) buf w
        in dd_write_loop env d (drop inSize unread) blockSize count' (addr + of_nat inSize) w1
      else w)"
  by pat_completeness auto
termination
  by (relation "measure (\<lambda>(env, d, unread, blockSize, count, addr, w). nat count)") auto

declare dd_write_loop.simps [simp del]

text \<open>
  The count the specification asks for: the file length rounded up to whole blocks.
\<close>

definition spec_blocks_rounded_up :: "nat \<Rightarrow> nat \<Rightarrow> nat" where
  "spec_blocks_rounded_up file_size blockSize = (file_size + blockSize - 1) div blockSize"

text \<open>
  The shape of a run of the bank loop, read off its log \<open>tr\<close> and its outcome: after a
  normal end no sweep call has failed; after a \<open>return result\<close> from inside the sweep the
  last call of the log is a sweep call answered with that negative result, and no sweep
  call before it has failed.
\<close>

definition run_shape :: "(int + int) \<Rightarrow> (hw_call \<times> int) list \<Rightarrow> bool" where
  "run_shape out tr =
     (case out of
        Inr r \<Rightarrow> no_sweep_failure tr
      | Inl r \<Rightarrow> r < 0 \<and> tr \<noteq> [] \<and> snd (last tr) = r \<and> is_sweep_call (fst (last tr))
                 \<and> no_sweep_failure (butlast tr))"

subsection \<open>Concrete devices and environments\<close>

text \<open>
  Two cards, one of them an ARE device, both with 16 GB of DDR; an empty world whose
  device state carries nothing; environments in which every call succeeds, or one kind of
  call fails; a topology of two used banks.
\<close>

definition dev0 :: device where
  "dev0 = \<lparr>m_idx = 0, m_handle = 4096, mName = ''xilinx_vcu1525_dynamic_5_1'',
           mDDRSize = 0x400000000, mDataAlignment = 4096, sysfs_name = ''0000:03:00.1''\<rparr>"

definition are_dev :: device where
  "are_dev = \<lparr>m_idx = 1, m_handle = 8192, mName = ''xilinx_ku115_4ddr-xare_4_0'',
              mDDRSize = 0x400000000, mDataAlignment = 4096, sysfs_name = ''0000:04:00.1''\<rparr>"

definition world0 :: "unit world" where
  "world0 = \<lparr>dev_state = (), hw_log = [], cout = []\<rparr>"

definition env_ok :: "unit environment" where
  "env_ok c s = (case c of XclOpen i \<Rightarrow> 12288 | _ \<Rightarrow> 0, s)"

definition env_boot_fails :: "unit environment" where
  "env_boot_fails c s = (case c of XclBootFPGA h \<Rightarrow> - 1 | XclOpen i \<Rightarrow> 12288 | _ \<Rightarrow> 0, s)"

definition env_reopen_fails :: "unit environment" where
  "env_reopen_fails c s = (0, s)"

definition env_load_fails :: "unit environment" where
  "env_load_fails c s = (case c of XclLoadXclBin h buffer \<Rightarrow> - 22 | _ \<Rightarrow> 0, s)"

definition env_compare_fails_at_2 :: "unit environment" where
  "env_compare_fails_at_2 c s =
     (case c of
        Memaccess_readCompare acc addr sz pattern checks \<Rightarrow> (if sz = 2 then - 1 else 0)
      | _ \<Rightarrow> 0, s)"

definition topology0 :: "mem_data list" where
  "topology0 =
     [\<lparr>m_type = MEM_OTHER 1, m_used = 1, m_base_address = 0, m_tag = ''bank0''\<rparr>,
      \<lparr>m_type = MEM_OTHER 1, m_used = 1, m_base_address = 0x100000000, m_tag = ''bank1''\<rparr>]"

definition xclbin2_file :: string where
  "xclbin2_file = ''xclbin2'' @ [CHR 0x00] @ ''payload-of-the-container''"

section \<open>Properties\<close>

subsection \<open>Calls and the log\<close>

lemma hw_split:
  "hw env c w =
     (fst (env c (dev_state w)),
      w\<lparr>dev_state := snd (env c (dev_state w)),
        hw_log := hw_log w @ [(c, fst (env c (dev_state w)))]\<rparr>)"
  by (simp add: hw_def split: prod.splits)

lemma hw_log_snd_hw: "hw_log (snd (hw env c w)) = hw_log w @ [(c, fst (hw env c w))]"
  by (simp add: hw_split)

lemma print_print: "print b (print a w) = print (a @ b) w"
  by (simp add: print_def)

lemma some_warning:
  "xs \<noteq> [] \<Longrightarrow> \<exists>warning. warning \<noteq> [] \<and> f (print xs w) = f (print warning w)"
  by blast

subsection \<open>The DMA test\<close>

lemma run_shape_append:
  "no_sweep_failure tr1 \<Longrightarrow> run_shape out tr2 \<Longrightarrow> run_shape out (tr1 @ tr2)"
  by (cases out) (auto simp add: run_shape_def no_sweep_failure_def butlast_append)

lemma run_shape_fail: "is_sweep_call c \<Longrightarrow> r < 0 \<Longrightarrow> run_shape (Inl r) [(c, r)]"
  by (simp add: run_shape_def no_sweep_failure_def)

lemma sweep_shape:
  "\<exists>tr. hw_log (snd (sweep env d addr pattern sz result w)) = hw_log w @ tr
        \<and> run_shape (fst (sweep env d addr pattern sz result w)) tr"
proof (induction env d addr pattern sz result w rule: sweep.induct)
  case (1 env d addr pattern sz result w)
  show ?case
  proof (cases "0 < sz \<and> sz \<le> 256")
    case False
    then have "sweep env d addr pattern sz result w = (Inr result, w)"
      by (subst sweep.simps) auto
    then show ?thesis by (simp add: run_shape_def no_sweep_failure_def)
  next
    case True
    obtain r1 w1 where a: "memwriteQuiet env d addr (of_nat sz) pattern w = (r1, w1)"
      by (cases "memwriteQuiet env d addr (of_nat sz) pattern w")
    obtain r2 w2 where b: "memreadCompare env d addr (of_nat sz) pattern False w1 = (r2, w2)"
      by (cases "memreadCompare env d addr (of_nat sz) pattern False w1")
    let ?c1 = "Memaccess_writeQuiet (memaccess_of d) addr (of_nat sz) pattern"
    let ?c2 = "Memaccess_readCompare (memaccess_of d) addr (of_nat sz) pattern False"
    have l1: "hw_log w1 = hw_log w @ [(?c1, r1)]"
      using a hw_log_snd_hw [of env ?c1 w] by (simp add: memwriteQuiet_def)
    have l2: "hw_log w2 = hw_log w1 @ [(?c2, r2)]"
      using b hw_log_snd_hw [of env ?c2 w1] by (simp add: memreadCompare_def)
    show ?thesis
    proof (cases "r1 < 0")
      case True
      then have "sweep env d addr pattern sz result w = (Inl r1, w1)"
        using \<open>0 < sz \<and> sz \<le> 256\<close> a by (subst sweep.simps) simp
      then show ?thesis using l1 True by (simp add: run_shape_fail)
    next
      case r1: False
      show ?thesis
      proof (cases "r2 < 0")
        case True
        then have "sweep env d addr pattern sz result w = (Inl r2, w2)"
          using \<open>0 < sz \<and> sz \<le> 256\<close> a b r1 by (subst sweep.simps) simp
        moreover have "run_shape (Inl r2) ([(?c1, r1)] @ [(?c2, r2)])"
          using r1 True
          by (intro run_shape_append run_shape_fail) (simp_all add: no_sweep_failure_def)
        ultimately show ?thesis using l1 l2 by simp
      next
        case r2: False
        have eq: "sweep env d addr pattern sz result w = sweep env d addr pattern (sz * 2) r2 w2"
          using \<open>0 < sz \<and> sz \<le> 256\<close> a b r1 r2 by (subst sweep.simps) simp
        from "1.IH" [OF True a [symmetric] refl r1 b [symmetric] refl r2]
        obtain tr where tr:
          "hw_log (snd (sweep env d addr pattern (sz * 2) r2 w2)) = hw_log w2 @ tr"
          "run_shape (fst (sweep env d addr pattern (sz * 2) r2 w2)) tr"
          by blast
        have "no_sweep_failure [(?c1, r1), (?c2, r2)]"
          using r1 r2 by (simp add: no_sweep_failure_def)
        then have "run_shape (fst (sweep env d addr pattern (sz * 2) r2 w2))
                     ([(?c1, r1), (?c2, r2)] @ tr)"
          using tr(2) by (rule run_shape_append)
        then show ?thesis using eq tr(1) l1 l2 by simp
      qed
    qed
  qed
qed

lemma dmatest_banks_shape:
  "\<exists>tr. hw_log (snd (dmatest_banks env d blockSize pattern verbose ms i result w)) = hw_log w @ tr
        \<and> run_shape (fst (dmatest_banks env d blockSize pattern verbose ms i result w)) tr"
proof (induction ms arbitrary: i result w)
  case Nil
  show ?case by (simp add: run_shape_def no_sweep_failure_def)
next
  case (Cons m ms)
  show ?case
  proof (cases "m_type m \<noteq> MEM_STREAMING \<and> m_used m \<noteq> 0")
    case False
    then have "dmatest_banks env d blockSize pattern verbose (m # ms) i result w
                 = dmatest_banks env d blockSize pattern verbose ms (i + 1) result w"
      by auto
    then show ?thesis using Cons.IH [of "i + 1" result w] by simp
  next
    case True
    define w0 where
      "w0 = (if verbose
             then print [Str ''Data Validity & DMA Test on '', Str (m_tag m), Str ''\<newline>''] w
             else w)"
    have l0: "hw_log w0 = hw_log w" by (simp add: w0_def print_def)
    obtain out w1 where s: "sweep env d (m_base_address m) pattern 1 result w0 = (out, w1)"
      by (cases "sweep env d (m_base_address m) pattern 1 result w0")
    from sweep_shape [of env d "m_base_address m" pattern 1 result w0] s
    obtain tr1 where tr1: "hw_log w1 = hw_log w @ tr1" "run_shape out tr1"
      using l0 by auto
    show ?thesis
    proof (cases out)
      case (Inl r)
      then have "dmatest_banks env d blockSize pattern verbose (m # ms) i result w = (Inl r, w1)"
        using True s by (simp add: w0_def)
      then show ?thesis using tr1 Inl by simp
    next
      case (Inr r)
      let ?c = "DMARunner_run (m_handle d) blockSize i"
      obtain r' w2 where h: "hw env ?c w1 = (r', w2)" by (cases "hw env ?c w1")
      have l2: "hw_log w2 = hw_log w1 @ [(?c, r')]"
        using h hw_log_snd_hw [of env ?c w1] by simp
      have eq: "dmatest_banks env d blockSize pattern verbose (m # ms) i result w
                  = dmatest_banks env d blockSize pattern verbose ms (i + 1) r' w2"
        using True s Inr h by (simp add: w0_def)
      from Cons.IH [of "i + 1" r' w2]
      obtain tr2 where tr2:
        "hw_log (snd (dmatest_banks env d blockSize pattern verbose ms (i + 1) r' w2))
           = hw_log w2 @ tr2"
        "run_shape (fst (dmatest_banks env d blockSize pattern verbose ms (i + 1) r' w2)) tr2"
        by blast
      have "no_sweep_failure (tr1 @ [(?c, r')])"
        using tr1(2) Inr by (simp add: run_shape_def no_sweep_failure_def)
      then have "run_shape (fst (dmatest_banks env d blockSize pattern verbose ms (i + 1) r' w2))
                   ((tr1 @ [(?c, r')]) @ tr2)"
        using tr2(2) by (rule run_shape_append)
      then show ?thesis using eq tr2(1) l2 tr1(1) by simp
    qed
  qed
qed

lemma dmatest_returns_sweep_failure:
  assumes "topology \<noteq> []"
  shows "\<exists>w2. hw_log w2 = hw_log w \<and> dev_state w2 = dev_state w
           \<and> (\<forall>r w3. dmatest_banks env d (if blockSize = 0 then 256 * 1024 * 1024 else blockSize)
                         74 verbose topology 0 0 w2 = (Inl r, w3)
                  \<longrightarrow> dmatest env d [] topology blockSize verbose w = (Inr r, w3))"
proof (cases verbose)
  case True
  let ?w2 = "print [Str ''Reporting from mem_topology:'', Endl]
               (print [Str ''Total DDR size: '', Num (uint (mDDRSize d div (1024 * 1024))),
                       Str '' MB\<newline>''] w)"
  have "hw_log ?w2 = hw_log w \<and> dev_state ?w2 = dev_state w" by (simp add: print_def)
  moreover have "\<forall>r w3. dmatest_banks env d (if blockSize = 0 then 256 * 1024 * 1024 else blockSize)
                         74 verbose topology 0 0 ?w2 = (Inl r, w3)
                  \<longrightarrow> dmatest env d [] topology blockSize verbose w = (Inr r, w3)"
    using assms True by (simp add: dmatest_def Let_def)
  ultimately show ?thesis by blast
next
  case False
  have "\<forall>r w3. dmatest_banks env d (if blockSize = 0 then 256 * 1024 * 1024 else blockSize)
                         74 verbose topology 0 0 w = (Inl r, w3)
                  \<longrightarrow> dmatest env d [] topology blockSize verbose w = (Inr r, w3)"
    using assms False by (simp add: dmatest_def Let_def)
  then show ?thesis by blast
qed

text \<open>
  Claim C1, as amended. In the bank loop of \<open>dmatest\<close> every pattern write and every
  read-back comparison before the last call to the device was answered with a result that
  is not negative. When one of them is answered with a negative result, the loop is left
  at once with that result: the failing call is the last call to the device, so no later
  size of that bank, no bulk run and no later bank follows. \<open>dmatest\<close> then returns that
  result from the world the loop left.
\<close>

theorem dmatest_banks_stops_at_first_failure:
  "(\<exists>tr. hw_log (snd (dmatest_banks env d blockSize pattern verbose ms i result w)) = hw_log w @ tr
        \<and> run_shape (fst (dmatest_banks env d blockSize pattern verbose ms i result w)) tr)
   \<and> (topology \<noteq> [] \<longrightarrow>
        (\<exists>w2. hw_log w2 = hw_log w \<and> dev_state w2 = dev_state w
           \<and> (\<forall>r w3. dmatest_banks env d (if blockSize = 0 then 256 * 1024 * 1024 else blockSize)
                         74 verbose topology 0 0 w2 = (Inl r, w3)
                  \<longrightarrow> dmatest env d [] topology blockSize verbose w = (Inr r, w3))))"
  using dmatest_banks_shape [of env d blockSize pattern verbose ms i result w]
    dmatest_returns_sweep_failure [of topology w env d blockSize verbose]
  by blast

theorem dmatest_banks_stops_at_first_failure_witness:
  "fst (dmatest_banks env_compare_fails_at_2 dev0 268435456 74 False topology0 0 0 world0)
     = Inl (- 1)
   \<and> run_shape (Inl (- 1))
       (hw_log (snd (dmatest_banks env_compare_fails_at_2 dev0 268435456 74 False topology0 0 0
                       world0)))
   \<and> topology0 \<noteq> []
   \<and> dmatest env_compare_fails_at_2 dev0 [] topology0 0 False world0
       = (Inr (- 1),
          snd (dmatest_banks env_compare_fails_at_2 dev0 268435456 74 False topology0 0 0 world0))"
  using dmatest_banks_stops_at_first_failure
          [where env = env_compare_fails_at_2 and d = dev0 and blockSize = 268435456
             and pattern = 74 and verbose = False and ms = topology0 and i = 0 and result = 0
             and w = world0 and topology = topology0]
  by (simp add: dmatest_def topology0_def sweep.simps memwriteQuiet_def memreadCompare_def
      hw_def env_compare_fails_at_2_def world0_def dev0_def run_shape_def no_sweep_failure_def)

text \<open>
  When every call succeeds the sweep of a bank writes and compares each of the nine
  sizes 1, 2, 4, ..., 256 once, in this order.
\<close>

lemma sweep_calls_when_ok:
  "map fst (hw_log (snd (sweep env_ok dev0 0 74 1 0 world0)))
     = concat (map (\<lambda>sz. [Memaccess_writeQuiet (memaccess_of dev0) 0 sz 74,
                             Memaccess_readCompare (memaccess_of dev0) 0 sz 74 False])
                   [1, 2, 4, 8, 16, 32, 64, 128, 256])"
  by (simp add: sweep.simps memwriteQuiet_def memreadCompare_def hw_def env_ok_def world0_def)

text \<open>
  Claim C1 as stated fails: the read-back comparison of bank 0 at size 2 fails, and
  \<open>dmatest\<close> returns its result after four calls. Sizes 4 to 256 of bank 0 are never
  written, bank 1 is never touched, and nothing but the returned \<open>-1\<close> tells of the
  failure.
\<close>

theorem dmatest_aborts_sweep_counterexample:
  "dmatest env_compare_fails_at_2 dev0 [] topology0 0 False world0
     = (Inr (- 1),
        world0\<lparr>hw_log :=
          [(Memaccess_writeQuiet (memaccess_of dev0) 0 1 74, 0),
           (Memaccess_readCompare (memaccess_of dev0) 0 1 74 False, 0),
           (Memaccess_writeQuiet (memaccess_of dev0) 0 2 74, 0),
           (Memaccess_readCompare (memaccess_of dev0) 0 2 74 False, - 1)]\<rparr>)"
  by (simp add: dmatest_def topology0_def sweep.simps memwriteQuiet_def memreadCompare_def
      hw_def env_compare_fails_at_2_def world0_def dev0_def)

subsection \<open>Memory access on an ARE device\<close>

text \<open>
  Claim C2, as amended. On an ARE device a read or write request whose start address or
  size exceeds the DDR size prints a warning, is not fatal, and is handed to \<open>memaccess\<close>
  with the requested start address and size unchanged: the full extent, not its in-range
  portion. The function returns what \<open>memaccess\<close> returns.
\<close>

theorem are_out_of_range_request_passed_unchanged:
  assumes "strstr (mName d) ''-xare''"
    and "mDDRSize d < aStartAddr \<or> mDDRSize d < aSize"
  shows "(\<exists>warning. warning \<noteq> []
            \<and> memwrite env d aStartAddr aSize aPattern w
                = hw env (Memaccess_write (memaccess_of d) aStartAddr aSize aPattern)
                    (print warning w))
       \<and> (\<exists>warning. warning \<noteq> []
            \<and> memwrite_buf env d aStartAddr aSize srcBuf w
                = hw env (Memaccess_write_buf (memaccess_of d) aStartAddr aSize srcBuf)
                    (print warning w))
       \<and> (\<exists>warning. warning \<noteq> []
            \<and> memread env d aFilename aStartAddr aSize w
                = hw env (Memaccess_read (memaccess_of d) aFilename aStartAddr aSize)
                    (print warning w))"
proof (intro conjI)
  show "\<exists>warning. warning \<noteq> []
            \<and> memwrite env d aStartAddr aSize aPattern w
                = hw env (Memaccess_write (memaccess_of d) aStartAddr aSize aPattern)
                    (print warning w)"
    using assms by (auto simp add: memwrite_def print_print Let_def intro!: some_warning)
  show "\<exists>warning. warning \<noteq> []
            \<and> memwrite_buf env d aStartAddr aSize srcBuf w
                = hw env (Memaccess_write_buf (memaccess_of d) aStartAddr aSize srcBuf)
                    (print warning w)"
    using assms by (auto simp add: memwrite_buf_def print_print Let_def intro!: some_warning)
  show "\<exists>warning. warning \<noteq> []
            \<and> memread env d aFilename aStartAddr aSize w
                = hw env (Memaccess_read (memaccess_of d) aFilename aStartAddr aSize)
                    (print warning w)"
    using assms by (auto simp add: memread_def print_print Let_def intro!: some_warning)
qed

theorem are_out_of_range_request_passed_unchanged_witness:
  "strstr (mName are_dev) ''-xare'' \<and> mDDRSize are_dev < 0x400001000
   \<and> memwrite env_ok are_dev 0x1000 0x400001000 74 world0
     = (0, \<lparr>dev_state = (),
            hw_log = [(Memaccess_write (memaccess_of are_dev) 0x1000 0x400001000 74, 0)],
            cout = [Str ''Write size '', Dec 0x400001000, Str '' from address 0x'', Hex 0x1000,
                    Str '' is over ARE'', Endl]\<rparr>)"
  using are_out_of_range_request_passed_unchanged
          [where d = are_dev and aStartAddr = "0x1000" and aSize = "0x400001000"
             and env = env_ok and aPattern = 74 and w = world0]
  by (simp add: memwrite_def are_dev_def env_ok_def world0_def hw_def print_def memaccess_of_def)

text \<open>
  Claim C2 as stated fails: on an ARE device with 16 GB a request for \<open>0x400001000\<close>
  bytes from address \<open>0x1000\<close> exceeds the memory in size. Its in-range portion is
  \<open>0x3FFFFF000\<close> bytes long; the request that \<open>memwrite\<close> and \<open>memread\<close> issue keeps the
  full size.
\<close>

theorem are_request_not_clamped_counterexample:
  "strstr (mName are_dev) ''-xare'' \<and> mDDRSize are_dev < 0x400001000
   \<and> hw_log (snd (memwrite env_ok are_dev 0x1000 0x400001000 74 world0))
       = [(Memaccess_write (memaccess_of are_dev) 0x1000 0x400001000 74, 0)]
   \<and> hw_log (snd (memread env_ok are_dev ''out.bin'' 0x1000 0x400001000 world0))
       = [(Memaccess_read (memaccess_of are_dev) ''out.bin'' 0x1000 0x400001000, 0)]
   \<and> spec_in_range_portion (mDDRSize are_dev) 0x1000 0x400001000 = (0x1000, 0x3FFFFF000)
   \<and> (0x1000, 0x400001000) \<noteq> spec_in_range_portion (mDDRSize are_dev) 0x1000 0x400001000"
  by (simp add: memwrite_def memread_def are_dev_def env_ok_def world0_def hw_def print_def
      memaccess_of_def spec_in_range_portion_def)

subsection \<open>The default block count\<close>

lemma sdiv_nonneg: "0 \<le> a \<Longrightarrow> 0 < b \<Longrightarrow> (a::int) sdiv b = a div b"
  by (simp add: signed_divide_int_def sgn_if)

lemma do_dd_count_default:
  assumes "0 < blockSize" and "file_size < 2 ^ 31 - 1"
  shows "do_dd_count 0 file_size (int blockSize) = Inr (int (file_size div blockSize) + 1)"
proof -
  have a: "signed_take_bit 31 (int file_size) = int file_size"
    using assms by (intro signed_take_bit_int_eq_self) simp_all
  have "file_size div blockSize < 2 ^ 31 - 1"
    using assms(2) by (rule le_less_trans [OF div_le_dividend])
  then have "int (file_size div blockSize) + 1 < 2 ^ 31" by simp
  then have b: "signed_take_bit 31 (int (file_size div blockSize) + 1)
                  = int (file_size div blockSize) + 1"
    by (intro signed_take_bit_int_eq_self) simp_all
  show ?thesis using assms a b by (simp add: do_dd_count_def sdiv_nonneg zdiv_int)
qed

text \<open>
  What the code computes against the rounded-up count: one block more exactly when the
  block size divides the file size.
\<close>

lemma do_dd_count_vs_rounded_up:
  assumes "0 < blockSize" and "file_size < 2 ^ 31 - 1"
  shows "do_dd_count 0 file_size (int blockSize)
           = Inr (int (spec_blocks_rounded_up file_size blockSize)
                  + (if blockSize dvd file_size then 1 else 0))"
proof -
  let ?q = "file_size div blockSize" and ?r = "file_size mod blockSize"
  have r: "?r < blockSize" using assms(1) by simp
  have "file_size + blockSize - 1 = (?r + blockSize - 1) + ?q * blockSize"
    using assms(1) by (simp add: algebra_simps)
  then have "(file_size + blockSize - 1) div blockSize = (?r + blockSize - 1) div blockSize + ?q"
    using assms(1) by (simp only: div_mult_self1 [of blockSize] div_mult_self3)
  moreover have "(?r + blockSize - 1) div blockSize = (if ?r = 0 then 0 else 1)"
  proof (cases "?r = 0")
    case True
    then show ?thesis using assms(1) by simp
  next
    case False
    then have "blockSize \<le> ?r + blockSize - 1" and "?r + blockSize - 1 < 2 * blockSize"
      using r by simp_all
    then have "(?r + blockSize - 1) div blockSize = 1"
      by (metis One_nat_def div_less le_add_diff_inverse le_div_geq mult_2
          nat_add_left_cancel_less assms(1))
    then show ?thesis using False by simp
  qed
  ultimately have "spec_blocks_rounded_up file_size blockSize
                     + (if blockSize dvd file_size then 1 else 0) = ?q + 1"
    by (simp add: spec_blocks_rounded_up_def dvd_eq_mod_eq_0)
  then have "int (spec_blocks_rounded_up file_size blockSize)
               + (if blockSize dvd file_size then 1 else 0) = int ?q + 1"
    by (metis (mono_tags) of_nat_add of_nat_1 int_ops(1))
  then show ?thesis using do_dd_count_default [OF assms] by simp
qed

text \<open>
  A file of \<open>2^31\<close> bytes has its length narrowed to the least \<open>int\<close>; with a block size
  of -1 the division traps.
\<close>

lemma do_dd_count_least_int: "do_dd_count 0 2147483648 (- 1) = Inl Division_trap"
  by (simp add: do_dd_count_def)

lemma do_dd_count_10000_4096:
  "do_dd_count 0 10000 4096 = Inr 3 \<and> spec_blocks_rounded_up 10000 4096 = 3"
  by (simp add: do_dd_count_def spec_blocks_rounded_up_def signed_divide_int_def)

text \<open>
  With a file of 8192 bytes and blocks of 4096 bytes the count of 3 makes the copy loop
  issue a third write, of no bytes, after the two full blocks.
\<close>

lemma dd_write_loop_8192_4096:
  "hw_log (dd_write_loop env_ok dev0 (replicate 8192 CHR ''J'') 4096 3 0 world0)
     = [(Memaccess_write_buf (memaccess_of dev0) 0 4096 (replicate 4096 CHR ''J''), 0),
        (Memaccess_write_buf (memaccess_of dev0) 4096 4096 (replicate 4096 CHR ''J''), 0),
        (Memaccess_write_buf (memaccess_of dev0) 8192 0 [], 0)]"
  by (simp add: dd_write_loop.simps memwrite_buf_def hw_def env_ok_def world0_def dev0_def
      memaccess_of_def Let_def)

text \<open>
  Claim C3. The code misses the rounded-up count where the block size divides the file
  length: a file of 8192 bytes copied in blocks of 4096 bytes starts the copy loop with a
  count of 3, and 8192 bytes are 2 whole blocks.
\<close>

theorem do_dd_count_not_rounded_up_at_multiple:
  "do_dd_count 0 8192 4096 = Inr 3 \<and> spec_blocks_rounded_up 8192 4096 = 2"
  by (simp add: do_dd_count_def spec_blocks_rounded_up_def signed_divide_int_def)

subsection \<open>\<open>boot\<close>\<close>

text \<open>
  Claim C4, as amended. For a privileged caller, a reboot request that fails with status
  \<open>r\<close> makes \<open>boot\<close> return \<open>r\<close> without reopening; a reboot request that succeeds followed
  by a failed reopen makes it return \<open>-1\<close> and leaves a null handle. The two results
  differ only when \<open>r\<close> is not \<open>-1\<close>.
\<close>

theorem boot_failure_results:
  assumes "uid = 0 \<or> euid = 0"
    and "env (XclBootFPGA (m_handle d)) (dev_state w) = (r, s1)"
    and "env (XclOpen (m_idx d)) s1 = (h, s2)"
  shows "(r \<noteq> 0 \<longrightarrow>
            fst (boot env uid euid d w) = r
            \<and> fst (snd (boot env uid euid d w)) = d
            \<and> hw_log (snd (snd (boot env uid euid d w)))
                = hw_log w @ [(XclBootFPGA (m_handle d), r)])
       \<and> (r = 0 \<and> h = 0 \<longrightarrow>
            fst (boot env uid euid d w) = - 1
            \<and> m_handle (fst (snd (boot env uid euid d w))) = 0
            \<and> hw_log (snd (snd (boot env uid euid d w)))
                = hw_log w @ [(XclBootFPGA (m_handle d), 0), (XclOpen (m_idx d), 0)])"
  using assms by (auto simp add: boot_def hw_split)

theorem boot_failure_results_witness:
  "env_boot_fails (XclBootFPGA (m_handle dev0)) (dev_state world0) = (- 1, ())
   \<and> fst (boot env_boot_fails 0 0 dev0 world0) = - 1
   \<and> env_reopen_fails (XclBootFPGA (m_handle dev0)) (dev_state world0) = (0, ())
   \<and> env_reopen_fails (XclOpen (m_idx dev0)) () = (0, ())
   \<and> fst (boot env_reopen_fails 0 0 dev0 world0) = - 1
   \<and> m_handle (fst (snd (boot env_reopen_fails 0 0 dev0 world0))) = 0"
  using boot_failure_results
          [where env = env_boot_fails and uid = 0 and euid = 0 and d = dev0 and w = world0
             and r = "- 1" and ?s1.0 = "()" and h = 12288 and ?s2.0 = "()"]
        boot_failure_results
          [where env = env_reopen_fails and uid = 0 and euid = 0 and d = dev0 and w = world0
             and r = 0 and ?s1.0 = "()" and h = 0 and ?s2.0 = "()"]
  by (simp add: env_boot_fails_def env_reopen_fails_def dev0_def world0_def)

text \<open>
  Claim C4 as stated fails: a reboot request that fails with \<open>-1\<close> and a reboot that
  succeeds but cannot reopen the device both return \<open>-1\<close>.
\<close>

theorem boot_same_result_counterexample:
  "boot env_boot_fails 0 0 dev0 world0
     = (- 1, dev0, world0\<lparr>hw_log := [(XclBootFPGA 4096, - 1)]\<rparr>)
   \<and> boot env_reopen_fails 0 0 dev0 world0
     = (- 1, dev0\<lparr>m_handle := 0\<rparr>,
        world0\<lparr>hw_log := [(XclBootFPGA 4096, 0), (XclOpen 0, 0)]\<rparr>)
   \<and> fst (boot env_boot_fails 0 0 dev0 world0) = fst (boot env_reopen_fails 0 0 dev0 world0)"
  by (simp add: boot_def hw_def env_boot_fails_def env_reopen_fails_def dev0_def world0_def)

text \<open>
  Claim C8. Called by a process whose real and effective user ids are both not root,
  \<open>boot\<close> returns \<open>-EACCES\<close> after printing the error: the handle is kept, no call is made
  to the device and its state is unchanged.
\<close>

theorem boot_unprivileged:
  assumes "uid \<noteq> 0" and "euid \<noteq> 0"
  shows "boot env uid euid d w
           = (- EACCES, d, print [Str ''ERROR: boot operation requires root privileges'', Endl] w)
       \<and> hw_log (snd (snd (boot env uid euid d w))) = hw_log w
       \<and> dev_state (snd (snd (boot env uid euid d w))) = dev_state w"
  using assms by (simp add: boot_def print_def)

theorem boot_unprivileged_witness:
  "(1000 :: nat) \<noteq> 0
   \<and> boot env_ok 1000 1000 dev0 world0
       = (- 13, dev0,
          world0\<lparr>cout := [Str ''ERROR: boot operation requires root privileges'', Endl]\<rparr>)"
  using boot_unprivileged [of 1000 1000 env_ok dev0 world0]
  by (simp add: print_def world0_def EACCES_def)

subsection \<open>\<open>program\<close>\<close>

lemma list8:
  "length (t :: 'a list) = 8 \<Longrightarrow> \<exists>a b c d e f g h. t = [a, b, c, d, e, f, g, h]"
  by (simp add: numeral_eq_Suc length_Suc_conv) blast

lemma strncmp_xclbin0:
  assumes "length temp = 8"
  shows "(strncmp temp ''xclbin0'' 8 = 0) = (temp = ''xclbin0'' @ [CHR 0x00])"
proof -
  obtain a b c d e f g h where t: "temp = [a, b, c, d, e, f, g, h]"
    using list8 [OF assms] by blast
  show ?thesis unfolding t by (simp add: numeral_eq_Suc)
qed

lemma strncmp_xclbin2:
  assumes "length temp = 8"
  shows "(strncmp temp ''xclbin2'' 8 = 0) = (temp = ''xclbin2'' @ [CHR 0x00])"
proof -
  obtain a b c d e f g h where t: "temp = [a, b, c, d, e, f, g, h]"
    using list8 [OF assms] by blast
  show ?thesis unfolding t by (simp add: numeral_eq_Suc)
qed

lemma read_temp_long: "8 \<le> length bytes \<Longrightarrow> read_temp temp0 bytes = take 8 bytes"
  by (simp add: read_temp_def)

lemma magic_ok_long:
  assumes "8 \<le> length bytes"
  shows "magic_ok (read_temp temp0 bytes)
           = (take 8 bytes = ''xclbin0'' @ [CHR 0x00] \<or> take 8 bytes = ''xclbin2'' @ [CHR 0x00])"
proof -
  have len: "length (take 8 bytes) = 8" using assms by simp
  show ?thesis
    using strncmp_xclbin0 [OF len] strncmp_xclbin2 [OF len] assms
    by (simp add: magic_ok_def read_temp_long)
qed

lemma tellg_length_of_int_size:
  assumes "8 \<le> length bytes" and "length bytes < 2 ^ 31"
  shows "tellg_length bytes = int (length bytes)"
proof -
  have "signed_take_bit 31 (int (length bytes)) = int (length bytes)"
    using assms by (intro signed_take_bit_int_eq_self) simp_all
  then show ?thesis using assms by (simp add: tellg_length_def signed_of_nat)
qed

lemma program_accepted_log:
  assumes "magic_ok (read_temp temp0 bytes)" and "0 \<le> tellg_length bytes"
  shows "\<exists>rest. hw_log (snd (program env d xclbin (Some bytes) temp0 0 w))
           = hw_log w @ (XclLockDevice (m_handle d),
                         fst (env (XclLockDevice (m_handle d)) (dev_state w))) # rest"
  using assms by (auto simp add: program_def magic_ok_def hw_split Let_def)

lemma program_rejected:
  "\<not> magic_ok (read_temp temp0 bytes)
     \<Longrightarrow> program env d xclbin (Some bytes) temp0 0 w = (Inr (- EINVAL), w)"
  by (simp add: program_def magic_ok_def)

lemma program_too_long:
  "magic_ok (read_temp temp0 bytes) \<Longrightarrow> tellg_length bytes < 0
     \<Longrightarrow> program env d xclbin (Some bytes) temp0 0 w = (Inl Bad_alloc, w)"
  by (auto simp add: program_def magic_ok_def)

text \<open>
  For a file of at least 8 bytes and region 0, \<open>program\<close> returns \<open>-EINVAL\<close> with the
  world untouched (no call to the device, no output) exactly when the first 8 bytes are
  neither \<open>xclbin0\<close> nor \<open>xclbin2\<close> followed by a NUL; and when they are one of the two tags
  (and the size of the file fits an \<open>int\<close>), the first call to the device is the lock.
\<close>

lemma program_header_check_of_8_bytes:
  assumes "8 \<le> length bytes"
  shows "((program env d xclbin (Some bytes) temp0 0 w = (Inr (- EINVAL), w))
           = (take 8 bytes \<noteq> ''xclbin0'' @ [CHR 0x00] \<and> take 8 bytes \<noteq> ''xclbin2'' @ [CHR 0x00]))
       \<and> ((take 8 bytes = ''xclbin0'' @ [CHR 0x00] \<or> take 8 bytes = ''xclbin2'' @ [CHR 0x00])
            \<and> length bytes < 2 ^ 31
          \<longrightarrow> (\<exists>rest. hw_log (snd (program env d xclbin (Some bytes) temp0 0 w))
                 = hw_log w @ (XclLockDevice (m_handle d),
                         fst (env (XclLockDevice (m_handle d)) (dev_state w))) # rest))"
proof (cases "magic_ok (read_temp temp0 bytes)")
  case False
  then show ?thesis
    using magic_ok_long [OF assms, of temp0] program_rejected [OF False] by simp
next
  case True
  have ne: "program env d xclbin (Some bytes) temp0 0 w \<noteq> (Inr (- EINVAL), w)"
  proof (cases "tellg_length bytes < 0")
    case True
    with \<open>magic_ok (read_temp temp0 bytes)\<close> show ?thesis by (simp add: program_too_long)
  next
    case False
    then have "0 \<le> tellg_length bytes" by simp
    from program_accepted_log [OF True this, of env d xclbin w]
    show ?thesis by auto
  qed
  have pos: "length bytes < 2 ^ 31 \<Longrightarrow> 0 \<le> tellg_length bytes"
    using assms by (simp add: tellg_length_of_int_size)
  show ?thesis
    using True ne pos program_accepted_log [OF True, of env d xclbin w]
      magic_ok_long [OF assms, of temp0]
    by auto
qed

lemma program_header_check_examples:
  "program env_ok dev0 ''a.xclbin'' (Some ''notvalid'') ''????????'' 0 world0
       = (Inr (- 22), world0)
   \<and> program env_ok dev0 ''a.xclbin'' (Some xclbin2_file) ''????????'' 0 world0
       \<noteq> (Inr (- 22), world0)"
  using program_header_check_of_8_bytes
          [where bytes = "''notvalid''" and env = env_ok and d = dev0 and xclbin = "''a.xclbin''"
             and ?temp0.0 = "''????????''" and w = world0]
        program_header_check_of_8_bytes
          [where bytes = xclbin2_file and env = env_ok and d = dev0 and xclbin = "''a.xclbin''"
             and ?temp0.0 = "''????????''" and w = world0]
  by (simp add: xclbin2_file_def EINVAL_def)

text \<open>
  For every file, whatever the stack held: \<open>program\<close> calls the device only when the
  file has at least 8 bytes and the first 8 are one of the two tags, and only for region 0.
  A file of fewer than 8 bytes never reaches the device; it ends with \<open>-EINVAL\<close> or with
  the exception of \<open>new char[-1]\<close>.
\<close>

lemma program_short_file:
  assumes "length bytes < 8"
  shows "program env d xclbin (Some bytes) temp0 0 w
           = (if magic_ok (read_temp temp0 bytes) then Inl Bad_alloc else Inr (- EINVAL), w)"
  using assms by (auto simp add: program_def magic_ok_def tellg_length_def)

lemma program_device_call_needs_tag:
  assumes "hw_log (snd (program env d xclbin (Some bytes) temp0 region w)) \<noteq> hw_log w"
  shows "region = 0 \<and> 8 \<le> length bytes
       \<and> (take 8 bytes = ''xclbin0'' @ [CHR 0x00] \<or> take 8 bytes = ''xclbin2'' @ [CHR 0x00])"
proof -
  have r: "region = 0"
    using assms by (cases "region = 0") (simp_all add: program_def print_def)
  have l: "8 \<le> length bytes"
  proof (rule ccontr)
    assume "\<not> 8 \<le> length bytes"
    then have "length bytes < 8" by simp
    from program_short_file [OF this, of env d xclbin temp0 w] assms r show False by simp
  qed
  have "magic_ok (read_temp temp0 bytes)"
  proof (rule ccontr)
    assume "\<not> magic_ok (read_temp temp0 bytes)"
    from program_rejected [OF this, of env d xclbin w] assms r show False by simp
  qed
  then show ?thesis using r l magic_ok_long [OF l, of temp0] by simp
qed

text \<open>
  Claim C5. The code misses the claim on a file of fewer than 8 bytes, where
  \<open>stream.read(temp, 8)\<close> leaves the end of \<open>temp\<close> as the stack held it and the header
  test compares those bytes too. A file that holds the 7 bytes \<open>xclbin2\<close> and no more,
  read when the eighth byte of \<open>temp\<close> happens to be 0, passes the header test without
  having a tag as its first 8 bytes, and is not rejected with \<open>-EINVAL\<close>: \<open>program\<close> ends
  with the exception of \<open>new char[-1]\<close>. With any other eighth byte the same file is
  rejected with \<open>-EINVAL\<close>.
\<close>

theorem program_short_file_passes_header_check:
  "length ''xclbin2'' < 8
   \<and> magic_ok (read_temp (''???????'' @ [CHR 0x00]) ''xclbin2'')
   \<and> program env_ok dev0 ''a.xclbin'' (Some ''xclbin2'') (''???????'' @ [CHR 0x00]) 0 world0
       = (Inl Bad_alloc, world0)
   \<and> program env_ok dev0 ''a.xclbin'' (Some ''xclbin2'') ''????????'' 0 world0
       = (Inr (- 22), world0)"
  by (simp add: program_def magic_ok_def read_temp_def tellg_length_def numeral_eq_Suc EINVAL_def)

text \<open>
  Claim C6. The calls \<open>program\<close> makes to the device are none at all, or, only with
  region 0, a file that opened and a header that passed, the lock alone when the lock is
  refused, or the lock, the load and the unlock when the lock is granted: whatever the
  load returns, the unlock follows it, and the result of the load is returned.
\<close>

theorem program_lock_discipline:
  assumes "program env d xclbin content temp0 region w = (res, w')"
  shows "\<exists>tr. hw_log w' = hw_log w @ tr \<and>
     (tr = [] \<or>
      (region = 0 \<and> (\<exists>bytes. content = Some bytes \<and> magic_ok (read_temp temp0 bytes)) \<and>
        ((\<exists>r. r \<noteq> 0 \<and> tr = [(XclLockDevice (m_handle d), r)] \<and> res = Inr r) \<or>
         (\<exists>buffer r u. tr = [(XclLockDevice (m_handle d), 0),
                             (XclLoadXclBin (m_handle d) buffer, r),
                             (XclUnlockDevice (m_handle d), u)] \<and> res = Inr r))))"
  using assms
  by (auto simp add: program_def magic_ok_def hw_split Let_def print_def
      split: option.splits if_splits)

theorem program_lock_discipline_witness:
  "program env_load_fails dev0 ''a.xclbin'' (Some xclbin2_file) ''????????'' 0 world0
     = (Inr (- 22),
        world0\<lparr>hw_log := [(XclLockDevice 4096, 0), (XclLoadXclBin 4096 xclbin2_file, - 22),
                          (XclUnlockDevice 4096, 0)]\<rparr>)"
proof -
  have len: "8 \<le> length xclbin2_file" by (simp add: xclbin2_file_def)
  have "magic_ok (read_temp ''????????'' xclbin2_file)"
    by (simp add: magic_ok_long [OF len]) (simp add: xclbin2_file_def)
  then have m: "\<not> (strncmp (read_temp ''????????'' xclbin2_file) ''xclbin0'' 8 \<noteq> 0
                  \<and> strncmp (read_temp ''????????'' xclbin2_file) ''xclbin2'' 8 \<noteq> 0)"
    by (simp add: magic_ok_def)
  have l: "length xclbin2_file = 32" by (simp add: xclbin2_file_def)
  then have t: "tellg_length xclbin2_file = 32"
    using tellg_length_of_int_size [of xclbin2_file] by simp
  then have b: "take (nat (tellg_length xclbin2_file)) xclbin2_file = xclbin2_file"
    using l by simp
  show ?thesis
    using m t b
      program_lock_discipline
        [where env = env_load_fails and d = dev0 and xclbin = "''a.xclbin''"
           and content = "Some xclbin2_file" and ?temp0.0 = "''????????''" and region = 0
           and w = world0 and res = "Inr (- 22)"
           and w' = "world0\<lparr>hw_log := [(XclLockDevice 4096, 0),
                                          (XclLoadXclBin 4096 xclbin2_file, - 22),
                                          (XclUnlockDevice 4096, 0)]\<rparr>"]
    by (simp add: program_def hw_def env_load_fails_def Let_def)
       (simp add: dev0_def world0_def EINVAL_def)
qed

text \<open>
  Claim C7. With a file that opens and any region other than 0, \<open>program\<close> prints the
  error and returns \<open>-EINVAL\<close>; no call is made to the device and its state is unchanged.
\<close>

theorem program_rejects_other_regions:
  assumes "region \<noteq> 0"
  shows "program env d xclbin (Some bytes) temp0 region w
           = (Inr (- EINVAL), print [Str ''ERROR: Not support other than -r 0 '', Endl] w)
       \<and> hw_log (snd (program env d xclbin (Some bytes) temp0 region w)) = hw_log w
       \<and> dev_state (snd (program env d xclbin (Some bytes) temp0 region w)) = dev_state w"
  using assms by (simp add: program_def print_def)

theorem program_rejects_other_regions_witness:
  "(1 :: 32 word) \<noteq> 0
   \<and> program env_ok dev0 ''a.xclbin'' (Some xclbin2_file) ''????????'' 1 world0
       = (Inr (- 22), world0\<lparr>cout := [Str ''ERROR: Not support other than -r 0 '', Endl]\<rparr>)"
  using program_rejects_other_regions [of 1 env_ok dev0 "''a.xclbin''" xclbin2_file "''????????''" world0]
  by (simp add: print_def world0_def EINVAL_def)

subsection \<open>Pending bytes\<close>

lemma stoi_in_range: "in_int_range k \<Longrightarrow> stoi (Some k) = Inr (word_of_int k)"
  by (simp add: stoi_def in_int_range_def)

text \<open>
  Claim C9. When the consumer index read from the statistics equals the producer index,
  the pending byte count is 0, in both directions and for every ring size that
  \<open>std::stoi\<close> accepts (a power of two or not); the unit size is the constant 4096 of
  the code.
\<close>

theorem pending_zero_when_indices_equal:
  assumes "in_int_range p" and "in_int_range rngsz"
    and "stat_map ''descq_rngsz'' = Some rngsz"
  shows "(stat_map ''descq_pidx'' = Some p \<and> stat_map ''descq_cidx'' = Some p
            \<longrightarrow> write_pending stat_map = Inr 0)
       \<and> (stat_map ''c2h_wrb_pidx'' = Some p \<and> stat_map ''descq_cidx_wrb_pend'' = Some p
            \<longrightarrow> read_pending stat_map = Inr 0)"
  using assms by (simp add: write_pending_def read_pending_def stoi_in_range)

theorem pending_zero_when_indices_equal_witness:
  "write_pending [''descq_pidx'' \<mapsto> 70000, ''descq_cidx'' \<mapsto> 70000, ''descq_rngsz'' \<mapsto> 1024,
                  ''c2h_wrb_pidx'' \<mapsto> 70000, ''descq_cidx_wrb_pend'' \<mapsto> 70000] = Inr 0
   \<and> read_pending [''descq_pidx'' \<mapsto> 70000, ''descq_cidx'' \<mapsto> 70000, ''descq_rngsz'' \<mapsto> 1024,
                  ''c2h_wrb_pidx'' \<mapsto> 70000, ''descq_cidx_wrb_pend'' \<mapsto> 70000] = Inr 0"
  using pending_zero_when_indices_equal [of 70000 1024
      "[''descq_pidx'' \<mapsto> 70000, ''descq_cidx'' \<mapsto> 70000, ''descq_rngsz'' \<mapsto> 1024,
        ''c2h_wrb_pidx'' \<mapsto> 70000, ''descq_cidx_wrb_pend'' \<mapsto> 70000]"]
  by (simp add: in_int_range_def)

text \<open>
  Claim C10. Whenever the three statistics convert, the write side and the read side
  both return the masked index difference times 4096: the formula of the specification
  at unit size 4096, whatever the indices and the ring size are.
\<close>

theorem pending_unit_is_4096_both_directions:
  assumes "in_int_range rngsz" and "stat_map ''descq_rngsz'' = Some rngsz"
  shows "(in_int_range p \<and> in_int_range c
            \<and> stat_map ''descq_pidx'' = Some p \<and> stat_map ''descq_cidx'' = Some c
            \<longrightarrow> write_pending stat_map
                  = Inr (spec_pending (word_of_int p) (word_of_int c) (word_of_int rngsz) 4096))
       \<and> (in_int_range p \<and> in_int_range c
            \<and> stat_map ''c2h_wrb_pidx'' = Some p \<and> stat_map ''descq_cidx_wrb_pend'' = Some c
            \<longrightarrow> read_pending stat_map
                  = Inr (spec_pending (word_of_int p) (word_of_int c) (word_of_int rngsz) 4096))"
  using assms
  by (simp add: write_pending_def read_pending_def spec_pending_def stoi_in_range)

theorem pending_unit_is_4096_both_directions_witness:
  "write_pending [''descq_pidx'' \<mapsto> 5, ''descq_cidx'' \<mapsto> 1022, ''descq_rngsz'' \<mapsto> 1024,
                  ''c2h_wrb_pidx'' \<mapsto> 5, ''descq_cidx_wrb_pend'' \<mapsto> 1022] = Inr (7 * 4096)
   \<and> read_pending [''descq_pidx'' \<mapsto> 5, ''descq_cidx'' \<mapsto> 1022, ''descq_rngsz'' \<mapsto> 1024,
                  ''c2h_wrb_pidx'' \<mapsto> 5, ''descq_cidx_wrb_pend'' \<mapsto> 1022] = Inr (7 * 4096)"
  using pending_unit_is_4096_both_directions [of 1024
      "[''descq_pidx'' \<mapsto> 5, ''descq_cidx'' \<mapsto> 1022, ''descq_rngsz'' \<mapsto> 1024,
        ''c2h_wrb_pidx'' \<mapsto> 5, ''descq_cidx_wrb_pend'' \<mapsto> 1022]" 5 1022]
  by (simp add: in_int_range_def spec_pending_def)

end
